theory Spec2Isabelle
  imports Main "HOL-Library.AList"
begin

text \<open>
  A shallow embedding of \<^verbatim>\<open>synapse/handlers/auth.py\<close>: the user-interactive
  authentication handler (\<^verbatim>\<open>check_auth\<close>, \<^verbatim>\<open>add_oob_auth\<close> and the stage checkers),
  login validation over the password providers and the local password database, and the
  generator of the short-term login token. Exceptions are values of a sum type, the session
  cache is an explicit state that every operation returns, and the collaborators the file
  calls but does not define (store, bcrypt, HTTP client, identity service) are parameters.
\<close>

section \<open>Python values and dictionaries\<close>

text \<open>
  The handler of \<^verbatim>\<open>synapse/handlers/auth.py\<close> works on parsed JSON: the client
  dictionary, its \<^verbatim>\<open>auth\<close> member, the results of the stage checkers and the
  responses are Python values. A dictionary is an association list (a key occurs once in a
  dictionary read from JSON; \<open>map_of\<close> reads the first occurrence); \<open>AList.update\<close> is
  \<^verbatim>\<open>d[k] = v\<close>, \<open>AList.delete\<close> is \<^verbatim>\<open>del d[k]\<close> and \<open>AList.merge\<close> is
  \<^verbatim>\<open>d.update(e)\<close>.
\<close>

datatype val =
    VNone
  | VBool bool
  | VInt int
  | VStr string
  | VList "val list"
  | VDict "(string \<times> val) list"

type_synonym dict = "(string \<times> val) list"

text \<open>Python's truth value of an object, as \<^verbatim>\<open>if x:\<close> and \<^verbatim>\<open>not x\<close> read it.\<close>

fun truthy :: "val \<Rightarrow> bool" where
  "truthy VNone = False"
| "truthy (VBool b) = b"
| "truthy (VInt i) = (i \<noteq> 0)"
| "truthy (VStr s) = (s \<noteq> [])"
| "truthy (VList l) = (l \<noteq> [])"
| "truthy (VDict d) = (d \<noteq> [])"

definition keys :: "('k \<times> 'v) list \<Rightarrow> 'k list" where
  "keys d = map fst d"

text \<open>\<^verbatim>\<open>d.get(k)\<close>: the value, or Python's \<^verbatim>\<open>None\<close>.\<close>

definition dict_get :: "dict \<Rightarrow> string \<Rightarrow> val" where
  "dict_get d k = (case map_of d k of None \<Rightarrow> VNone | Some v \<Rightarrow> v)"

section \<open>Errors\<close>

text \<open>
  The error codes the handler names (\<^verbatim>\<open>synapse.api.errors.Codes\<close>), the message of an
  error (a literal, or a format string with its arguments: rendering \<^verbatim>\<open>%s\<close> is
  Python's work), and the exceptions: \<^verbatim>\<open>LoginError\<close> is the stage-specific
  authentication error and a subclass of \<^verbatim>\<open>SynapseError\<close>, so that
  \<^verbatim>\<open>except LoginError\<close> does not catch a plain \<^verbatim>\<open>SynapseError\<close>;
  \<open>TypeError\<close>, \<open>AttributeError\<close> and \<open>KeyError\<close> are the interpreter's own;
  \<open>External\<close> is any failure of a collaborator (store, HTTP client, identity service).
\<close>

datatype codes = UNRECOGNIZED | MISSING_PARAM | CAPTCHA_NEEDED | UNAUTHORIZED | FORBIDDEN

datatype msg = Msg string | Fmt string "val list"

datatype error =
    LoginError int msg codes
  | SynapseError int msg
  | TypeError
  | AttributeError
  | KeyError
  | External string

text \<open>
  \<^verbatim>\<open>k in v\<close> and \<^verbatim>\<open>v[k]\<close> for a string \<open>k\<close> and any value \<open>v\<close>: membership in a
  dictionary is by key, in a list by element, in a string by substring, and raises
  \<^verbatim>\<open>TypeError\<close> on the other values; indexing by a string works on dictionaries only.
\<close>

fun is_substring :: "string \<Rightarrow> string \<Rightarrow> bool" where
  "is_substring k [] = (k = [])"
| "is_substring k (c # s) = (take (length k) (c # s) = k \<or> is_substring k s)"

fun py_in :: "string \<Rightarrow> val \<Rightarrow> error + bool" where
  "py_in k (VDict d) = Inr (k \<in> set (keys d))"
| "py_in k (VList l) = Inr (VStr k \<in> set l)"
| "py_in k (VStr s) = Inr (is_substring k s)"
| "py_in k _ = Inl TypeError"

fun py_getitem :: "val \<Rightarrow> string \<Rightarrow> error + val" where
  "py_getitem (VDict d) k = (case map_of d k of None \<Rightarrow> Inl KeyError | Some v \<Rightarrow> Inr v)"
| "py_getitem _ k = Inl TypeError"

section \<open>Constants of the protocol\<close>

text \<open>
  Modelled from the spec: \<^verbatim>\<open>synapse.api.constants.LoginType\<close> is not among the source
  files; the spec's scenarios give \<^verbatim>\<open>m.login.password\<close> and \<^verbatim>\<open>m.login.dummy\<close>, and the
  other three stage types are named after the same scheme. Only their being distinct
  matters to the handler.
\<close>

definition PASSWORD :: string where "PASSWORD = ''m.login.password''"
definition RECAPTCHA :: string where "RECAPTCHA = ''m.login.recaptcha''"
definition EMAIL_IDENTITY :: string where "EMAIL_IDENTITY = ''m.login.email.identity''"
definition MSISDN :: string where "MSISDN = ''m.login.msisdn''"
definition DUMMY :: string where "DUMMY = ''m.login.dummy''"

section \<open>The home server: configuration and collaborators\<close>

text \<open>
  A password provider is polymorphic over an optional capability set
  (\<^verbatim>\<open>hasattr(provider, ...)\<close>): a capability it lacks is \<open>None\<close>. A custom check
  returns nothing, a bare user id, or a pair of a user id and a callback.
\<close>

datatype provider_result = PNone | PStr string | PTuple string "string option"

record provider =
  provider_check_password :: "(string \<Rightarrow> val \<Rightarrow> error + bool) option"
  provider_login_types :: "(string \<times> string list) list option"
  provider_check_auth :: "(string \<Rightarrow> val \<Rightarrow> dict \<Rightarrow> error + provider_result) option"

text \<open>The answer of the HTTP client to the CAPTCHA verification call.\<close>

datatype http_result = Body val | PartialDownloadError string | HttpFailure error

text \<open>
  The configuration values the handler reads from \<^verbatim>\<open>hs.config\<close>, and the collaborators
  it calls, as functions: the store's case-insensitive lookup (a dictionary from user id
  to password hash, the hash absent for a user without one), bcrypt's \<^verbatim>\<open>hashpw\<close>
  (which raises on a salt it cannot read), \<^verbatim>\<open>encode('utf8')\<close> of a string (which
  raises on a byte string that is not ASCII), the HTTP client, the JSON parser, the identity handler, \<^verbatim>\<open>UserID(name, domain).to_string()\<close>
  of \<^verbatim>\<open>synapse.types\<close> and the \<^verbatim>\<open>error_dict()\<close> method of the errors of
  \<^verbatim>\<open>synapse.api.errors\<close>. None of them is among the source files, so each is a
  parameter here.
\<close>

record homeserver =
  hostname :: string
  password_enabled :: bool
  password_pepper :: string
  password_providers :: "provider list"
  recaptcha_public_key :: string
  get_users_by_id_case_insensitive :: "string \<Rightarrow> error + (string \<times> string option) list"
  hashpw :: "string \<Rightarrow> string \<Rightarrow> error + string"
  utf8_encode :: "string \<Rightarrow> error + string"
  post_urlencoded_get_json :: "val \<Rightarrow> string \<Rightarrow> http_result"
  simplejson_loads :: "string \<Rightarrow> error + val"
  threepid_from_creds :: "val \<Rightarrow> error + val"
  userid_to_string :: "string \<Rightarrow> string \<Rightarrow> string"
  error_dict :: "error \<Rightarrow> dict"

section \<open>Credential store adapter\<close>

text \<open>
  \<^verbatim>\<open>_find_user_id_and_pwd_hash\<close>: no match gives \<^verbatim>\<open>None\<close>, a single match is
  returned (\<^verbatim>\<open>popitem\<close> of a dictionary of one item), several matches are resolved by
  the exact user id only.
\<close>

definition find_user_id_and_pwd_hash ::
  "homeserver \<Rightarrow> string \<Rightarrow> error + (string \<times> string option) option" where
  "find_user_id_and_pwd_hash hs user_id =
     (case get_users_by_id_case_insensitive hs user_id of
        Inl e \<Rightarrow> Inl e
      | Inr user_infos \<Rightarrow>
          Inr (if user_infos = [] then None
               else if length user_infos = 1 then Some (hd user_infos)
               else if user_id \<in> set (keys user_infos)
                 then (case map_of user_infos user_id of
                         None \<Rightarrow> None | Some h \<Rightarrow> Some (user_id, h))
               else None))"

text \<open>
  \<^verbatim>\<open>hash\<close> and \<^verbatim>\<open>validate_hash\<close>. The salt is what \<^verbatim>\<open>bcrypt.gensalt\<close> drew; an
  absent or empty stored hash is false in \<^verbatim>\<open>if stored_hash:\<close>. The password is
  encoded first, then the stored hash, then bcrypt is called; each of the three may raise.
\<close>

definition hash :: "homeserver \<Rightarrow> string \<Rightarrow> string \<Rightarrow> error + string" where
  "hash hs salt password =
     (case utf8_encode hs password of
        Inl e \<Rightarrow> Inl e
      | Inr pw \<Rightarrow> hashpw hs (pw @ password_pepper hs) salt)"

definition validate_hash :: "homeserver \<Rightarrow> string \<Rightarrow> string option \<Rightarrow> error + bool" where
  "validate_hash hs password stored_hash =
     (case stored_hash of
        None \<Rightarrow> Inr False
      | Some h \<Rightarrow>
          if h \<noteq> []
          then (case utf8_encode hs password of
                  Inl e \<Rightarrow> Inl e
                | Inr pw \<Rightarrow>
                    (case utf8_encode hs h of
                       Inl e \<Rightarrow> Inl e
                     | Inr salt \<Rightarrow>
                         (case hashpw hs (pw @ password_pepper hs) salt of
                            Inl e \<Rightarrow> Inl e
                          | Inr hashed \<Rightarrow> Inr (hashed = h))))
          else Inr False)"

text \<open>
  \<^verbatim>\<open>_check_local_password\<close>. The password comes from the login submission and is any
  value; \<^verbatim>\<open>validate_hash\<close> calls \<^verbatim>\<open>password.encode\<close> only below a stored hash that
  is true, which a value other than a string does not have.
\<close>

definition check_local_password :: "homeserver \<Rightarrow> string \<Rightarrow> val \<Rightarrow> error + string option" where
  "check_local_password hs user_id password =
     (case find_user_id_and_pwd_hash hs user_id of
        Inl e \<Rightarrow> Inl e
      | Inr None \<Rightarrow> Inr None
      | Inr (Some (canonical_id, password_hash)) \<Rightarrow>
          (case password of
             VStr p \<Rightarrow>
               (case validate_hash hs p password_hash of
                  Inl e \<Rightarrow> Inl e
                | Inr result \<Rightarrow> Inr (if result then Some canonical_id else None))
           | _ \<Rightarrow> if password_hash \<noteq> None \<and> password_hash \<noteq> Some []
                  then Inl AttributeError else Inr None))"

section \<open>Provider chain and login validation\<close>

text \<open>
  \<^verbatim>\<open>login_type not in supported_login_types\<close>: the key of a dictionary must be
  hashable, which a list and a dictionary are not; a value that is no string equals no
  key.
\<close>

fun val_in_keys :: "val \<Rightarrow> (string \<times> 'a) list \<Rightarrow> error + bool" where
  "val_in_keys (VStr s) d = Inr (s \<in> set (keys d))"
| "val_in_keys (VList l) d = Inl TypeError"
| "val_in_keys (VDict e) d = Inl TypeError"
| "val_in_keys _ d = Inr False"

text \<open>The truth value and the normal form of what a provider's custom check returned
  (\<^verbatim>\<open>if result:\<close> and \<^verbatim>\<open>isinstance(result, str)\<close>).\<close>

fun provider_result_tuple :: "provider_result \<Rightarrow> (string \<times> string option) option" where
  "provider_result_tuple PNone = None"
| "provider_result_tuple (PStr s) = (if s = [] then None else Some (s, None))"
| "provider_result_tuple (PTuple u cb) = Some (u, cb)"

text \<open>
  One round of the loop over the password providers in \<^verbatim>\<open>validate_login\<close>: the result
  the round returns, if any, and \<^verbatim>\<open>known_login_type\<close> after it.
\<close>

definition check_provider ::
  "provider \<Rightarrow> string \<Rightarrow> string \<Rightarrow> val \<Rightarrow> val \<Rightarrow> dict \<Rightarrow> bool
     \<Rightarrow> error + ((string \<times> string option) option \<times> bool)" where
  "check_provider p username qualified_user_id login_type password login_submission known =
     (case (case provider_check_password p of
              Some check_password \<Rightarrow>
                if login_type = VStr PASSWORD
                then (case check_password qualified_user_id password of
                        Inl e \<Rightarrow> Inl e
                      | Inr is_valid \<Rightarrow> Inr (True, is_valid))
                else Inr (known, False)
            | None \<Rightarrow> Inr (known, False)) of
        Inl e \<Rightarrow> Inl e
      | Inr (known1, is_valid) \<Rightarrow>
          if is_valid then Inr (Some (qualified_user_id, None), known1)
          else
            (case provider_login_types p of
               None \<Rightarrow> Inr (None, known1)
             | Some supported_login_types \<Rightarrow>
                 (case provider_check_auth p of
                    None \<Rightarrow> Inr (None, known1)
                  | Some check_auth \<Rightarrow>
                      (case val_in_keys login_type supported_login_types of
                         Inl e \<Rightarrow> Inl e
                       | Inr False \<Rightarrow> Inr (None, known1)
                       | Inr True \<Rightarrow>
                           (let login_fields =
                                  (case login_type of
                                     VStr t \<Rightarrow>
                                       (case map_of supported_login_types t of
                                          Some fs \<Rightarrow> fs | None \<Rightarrow> [])
                                   | _ \<Rightarrow> []);
                                missing_fields =
                                  filter (\<lambda>f. f \<notin> set (keys login_submission)) login_fields;
                                login_dict =
                                  fold (\<lambda>f d. if f \<in> set (keys login_submission)
                                               then AList.update f (dict_get login_submission f) d
                                               else d) login_fields []
                            in if missing_fields \<noteq> []
                               then Inl (SynapseError 400
                                      (Fmt ''Missing parameters for login type %s: %s''
                                         [login_type, VList (map VStr missing_fields)]))
                               else
                                 (case check_auth username login_type login_dict of
                                    Inl e \<Rightarrow> Inl e
                                  | Inr result \<Rightarrow>
                                      Inr (provider_result_tuple result, True)))))))"

fun providers_loop ::
  "provider list \<Rightarrow> string \<Rightarrow> string \<Rightarrow> val \<Rightarrow> val \<Rightarrow> dict \<Rightarrow> bool
     \<Rightarrow> error + ((string \<times> string option) option \<times> bool)" where
  "providers_loop [] username qualified_user_id login_type password login_submission known =
     Inr (None, known)"
| "providers_loop (p # ps) username qualified_user_id login_type password login_submission known =
     (case check_provider p username qualified_user_id login_type password login_submission known of
        Inl e \<Rightarrow> Inl e
      | Inr (Some r, known1) \<Rightarrow> Inr (Some r, known1)
      | Inr (None, known1) \<Rightarrow>
          providers_loop ps username qualified_user_id login_type password login_submission known1)"

text \<open>The \<^verbatim>\<open>qualified_user_id\<close> of the first lines of \<^verbatim>\<open>validate_login\<close>.\<close>

definition qualify :: "homeserver \<Rightarrow> string \<Rightarrow> string" where
  "qualify hs username =
     (if take 1 username = ''@'' then username
      else userid_to_string hs username (hostname hs))"

text \<open>
  \<^verbatim>\<open>validate_login\<close>: the canonical user id and the optional callback, or the error
  raised. The local password database is consulted after the providers, for the password
  type only; an empty canonical id is false in \<^verbatim>\<open>if canonical_user_id:\<close>.
\<close>

definition validate_login ::
  "homeserver \<Rightarrow> string \<Rightarrow> dict \<Rightarrow> error + (string \<times> string option)" where
  "validate_login hs username login_submission =
     (let qualified_user_id = qualify hs username;
          login_type = dict_get login_submission ''type'';
          password = dict_get login_submission ''password''
      in if login_type = VStr PASSWORD \<and> \<not> password_enabled hs
         then Inl (SynapseError 400 (Msg ''Password login has been disabled.''))
         else if login_type = VStr PASSWORD \<and> \<not> truthy password
         then Inl (SynapseError 400 (Msg ''Missing parameter: password''))
         else
           (case providers_loop (password_providers hs) username qualified_user_id
                   login_type password login_submission False of
              Inl e \<Rightarrow> Inl e
            | Inr (Some r, known) \<Rightarrow> Inr r
            | Inr (None, known) \<Rightarrow>
                (case (if login_type = VStr PASSWORD
                       then (case check_local_password hs qualified_user_id password of
                               Inl e \<Rightarrow> Inl e
                             | Inr canonical_user_id \<Rightarrow> Inr (True, canonical_user_id))
                       else Inr (known, None)) of
                   Inl e \<Rightarrow> Inl e
                 | Inr (known_login_type, canonical_user_id) \<Rightarrow>
                     (case canonical_user_id of
                        Some (c # cs) \<Rightarrow> Inr (c # cs, None)
                      | _ \<Rightarrow>
                          if \<not> known_login_type
                          then Inl (SynapseError 400 (Fmt ''Unknown login type %s'' [login_type]))
                          else Inl (LoginError 403 (Msg ''Invalid password'') FORBIDDEN)))))"

section \<open>Stage checkers\<close>

text \<open>Each checker takes the \<^verbatim>\<open>auth\<close> block and the client's address and returns the
  stage result or raises.\<close>

definition check_password_auth :: "homeserver \<Rightarrow> val \<Rightarrow> string \<Rightarrow> error + val" where
  "check_password_auth hs authdict clientip =
     (case py_in ''user'' authdict of
        Inl e \<Rightarrow> Inl e
      | Inr False \<Rightarrow> Inl (LoginError 400 (Msg '''') MISSING_PARAM)
      | Inr True \<Rightarrow>
          (case py_in ''password'' authdict of
             Inl e \<Rightarrow> Inl e
           | Inr False \<Rightarrow> Inl (LoginError 400 (Msg '''') MISSING_PARAM)
           | Inr True \<Rightarrow>
               (case py_getitem authdict ''user'' of
                  Inl e \<Rightarrow> Inl e
                | Inr user_id \<Rightarrow>
                    (case py_getitem authdict ''password'' of
                       Inl e \<Rightarrow> Inl e
                     | Inr password \<Rightarrow>
                         (case user_id of
                            VStr u \<Rightarrow>
                              (case validate_login hs u
                                      [(''type'', VStr PASSWORD), (''password'', password)] of
                                 Inl e \<Rightarrow> Inl e
                               | Inr (canonical_id, callback) \<Rightarrow> Inr (VStr canonical_id))
                          | _ \<Rightarrow> Inl AttributeError)))))"

definition check_recaptcha :: "homeserver \<Rightarrow> val \<Rightarrow> string \<Rightarrow> error + val" where
  "check_recaptcha hs authdict clientip =
     (case py_getitem authdict ''response'' of
        Inl KeyError \<Rightarrow>
          Inl (LoginError 400 (Msg ''Captcha response is required'') CAPTCHA_NEEDED)
      | Inl e \<Rightarrow> Inl e
      | Inr user_response \<Rightarrow>
          (case (case post_urlencoded_get_json hs user_response clientip of
                   Body b \<Rightarrow> Inr b
                 | PartialDownloadError data \<Rightarrow> simplejson_loads hs data
                 | HttpFailure e \<Rightarrow> Inl e) of
             Inl e \<Rightarrow> Inl e
           | Inr resp_body \<Rightarrow>
               (case py_in ''success'' resp_body of
                  Inl e \<Rightarrow> Inl e
                | Inr False \<Rightarrow> Inl (LoginError 401 (Msg '''') UNAUTHORIZED)
                | Inr True \<Rightarrow>
                    (case py_getitem resp_body ''success'' of
                       Inl e \<Rightarrow> Inl e
                     | Inr success \<Rightarrow>
                         if truthy success then Inr (VBool True)
                         else Inl (LoginError 401 (Msg '''') UNAUTHORIZED)))))"

definition check_threepid :: "homeserver \<Rightarrow> string \<Rightarrow> val \<Rightarrow> error + val" where
  "check_threepid hs medium authdict =
     (case py_in ''threepid_creds'' authdict of
        Inl e \<Rightarrow> Inl e
      | Inr False \<Rightarrow> Inl (LoginError 400 (Msg ''Missing threepid_creds'') MISSING_PARAM)
      | Inr True \<Rightarrow>
          (case py_getitem authdict ''threepid_creds'' of
             Inl e \<Rightarrow> Inl e
           | Inr threepid_creds \<Rightarrow>
               (case threepid_from_creds hs threepid_creds of
                  Inl e \<Rightarrow> Inl e
                | Inr threepid \<Rightarrow>
                    if \<not> truthy threepid then Inl (LoginError 401 (Msg '''') UNAUTHORIZED)
                    else
                      (case py_getitem threepid ''medium'' of
                         Inl e \<Rightarrow> Inl e
                       | Inr m \<Rightarrow>
                           if m \<noteq> VStr medium
                           then Inl (LoginError 401
                                  (Fmt (''Expecting threepid of type '' @ [CHR 0x27] @ ''%s'' @ [CHR 0x27]
                                        @ '', got '' @ [CHR 0x27] @ ''%s'' @ [CHR 0x27])
                                     [VStr medium, m]) UNAUTHORIZED)
                           else
                             (case threepid of
                                VDict d \<Rightarrow>
                                  Inr (VDict (AList.update ''threepid_creds'' threepid_creds d))
                              | _ \<Rightarrow> Inl TypeError)))))"

definition check_email_identity :: "homeserver \<Rightarrow> val \<Rightarrow> string \<Rightarrow> error + val" where
  "check_email_identity hs authdict clientip = check_threepid hs ''email'' authdict"

definition check_msisdn :: "homeserver \<Rightarrow> val \<Rightarrow> string \<Rightarrow> error + val" where
  "check_msisdn hs authdict clientip = check_threepid hs ''msisdn'' authdict"

definition check_dummy_auth :: "val \<Rightarrow> string \<Rightarrow> error + val" where
  "check_dummy_auth authdict clientip = Inr (VBool True)"

text \<open>The dispatch table \<^verbatim>\<open>self.checkers\<close>.\<close>

definition checkers :: "homeserver \<Rightarrow> (string \<times> (val \<Rightarrow> string \<Rightarrow> error + val)) list" where
  "checkers hs =
     [(PASSWORD, check_password_auth hs),
      (RECAPTCHA, check_recaptcha hs),
      (EMAIL_IDENTITY, check_email_identity hs),
      (MSISDN, check_msisdn hs),
      (DUMMY, check_dummy_auth)]"

section \<open>Session store\<close>

text \<open>
  A session is a dictionary held in the cache \<^verbatim>\<open>self.sessions\<close> under its own
  \<^verbatim>\<open>id\<close>; the handler mutates the cached object in place, so a session is known here by
  its id and every change goes to the store at once. The members \<^verbatim>\<open>creds\<close>,
  \<^verbatim>\<open>clientdict\<close> and \<^verbatim>\<open>last_used\<close> are absent from a new session. The state also
  holds the clock and the strings \<^verbatim>\<open>random_string(24)\<close> is going to return.
\<close>

record session =
  session_creds :: "dict option"
  session_clientdict :: "dict option"
  session_last_used :: "int option"

record state =
  sessions :: "string \<rightharpoonup> session"
  time_msec :: int
  random_strings :: "string list"

definition new_session :: session where
  "new_session = \<lparr>session_creds = None, session_clientdict = None, session_last_used = None\<rparr>"

definition session_of :: "state \<Rightarrow> string \<Rightarrow> session" where
  "session_of st sid = (case sessions st sid of Some s \<Rightarrow> s | None \<Rightarrow> new_session)"

definition modify_session :: "string \<Rightarrow> (session \<Rightarrow> session) \<Rightarrow> state \<Rightarrow> state" where
  "modify_session sid f st = st\<lparr>sessions := (sessions st)(sid \<mapsto> f (session_of st sid))\<rparr>"

text \<open>\<^verbatim>\<open>_save_session\<close> stamps the session and stores it under its id.\<close>

definition save_session :: "string \<Rightarrow> state \<Rightarrow> state" where
  "save_session sid st = modify_session sid (\<lambda>s. s\<lparr>session_last_used := Some (time_msec st)\<rparr>) st"

text \<open>
  The loop of \<^verbatim>\<open>_get_session_info\<close> that draws random strings until one is no live
  session's id. It ends when the supply holds such a string, and has no result when the
  supply runs out first.
\<close>

fun random_session_id :: "(string \<rightharpoonup> session) \<Rightarrow> string list \<Rightarrow> (string \<times> string list) option" where
  "random_session_id ss [] = None"
| "random_session_id ss (r # rs) =
     (if ss r \<noteq> None then random_session_id ss rs else Some (r, rs))"

definition create_session :: "state \<Rightarrow> ((error + string) \<times> state) option" where
  "create_session st =
     (case random_session_id (sessions st) (random_strings st) of
        None \<Rightarrow> None
      | Some (session_id, rest) \<Rightarrow>
          Some (Inr session_id,
                st\<lparr>sessions := (sessions st)(session_id \<mapsto> new_session),
                   random_strings := rest\<rparr>))"

text \<open>
  \<^verbatim>\<open>_get_session_info\<close>: the id of the session to use. An id the client sent is any
  value: one that is no string is no key of the cache, and a list or a dictionary cannot
  be looked up at all. An unknown or empty id gives a new session.
\<close>

definition get_session_info :: "val \<Rightarrow> state \<Rightarrow> ((error + string) \<times> state) option" where
  "get_session_info session_id st =
     (case session_id of
        VStr s \<Rightarrow>
          if sessions st s \<noteq> None \<and> s \<noteq> [] then Some (Inr s, st) else create_session st
      | VList l \<Rightarrow> Some (Inl TypeError, st)
      | VDict d \<Rightarrow> Some (Inl TypeError, st)
      | _ \<Rightarrow> create_session st)"

section \<open>User-interactive authentication\<close>

text \<open>\<^verbatim>\<open>_auth_dict_for_flows\<close>: the description of the flows, with the public parameters
  of each stage that has some.\<close>

definition get_params_recaptcha :: "homeserver \<Rightarrow> val" where
  "get_params_recaptcha hs = VDict [(''public_key'', VStr (recaptcha_public_key hs))]"

definition auth_dict_for_flows :: "homeserver \<Rightarrow> string list list \<Rightarrow> string \<Rightarrow> dict" where
  "auth_dict_for_flows hs flows session =
     (let public_flows = flows;
          get_params = [(RECAPTCHA, get_params_recaptcha hs)];
          params =
            fold (\<lambda>f ps.
                    fold (\<lambda>stage ps.
                            if stage \<in> set (keys get_params) \<and> stage \<notin> set (keys ps)
                            then AList.update stage (dict_get get_params stage) ps
                            else ps) f ps)
                 public_flows []
      in [(''session'', VStr session),
          (''flows'', VList (map (\<lambda>f. VDict [(''stages'', VList (map VStr f))]) public_flows)),
          (''params'', VDict params)])"

text \<open>
  Lines 120 to 126 of \<^verbatim>\<open>check_auth\<close>: the \<^verbatim>\<open>auth\<close> block, the session id it names
  and the client dictionary without the block. \<open>VNone\<close> is Python's \<^verbatim>\<open>None\<close>.
\<close>

definition split_clientdict :: "dict option \<Rightarrow> error + (val \<times> val \<times> dict option)" where
  "split_clientdict clientdict =
     (case clientdict of
        None \<Rightarrow> Inr (VNone, VNone, None)
      | Some cd \<Rightarrow>
          if cd \<noteq> [] \<and> ''auth'' \<in> set (keys cd)
          then
            (let authdict = dict_get cd ''auth'';
                 cd1 = AList.delete ''auth'' cd
             in case py_in ''session'' authdict of
                  Inl e \<Rightarrow> Inl e
                | Inr False \<Rightarrow> Inr (authdict, VNone, Some cd1)
                | Inr True \<Rightarrow>
                    (case py_getitem authdict ''session'' of
                       Inl e \<Rightarrow> Inl e
                     | Inr sid \<Rightarrow> Inr (authdict, sid, Some cd1)))
          else Inr (VNone, VNone, Some cd))"

text \<open>Lines 129 to 142: new client parameters replace the session's copy, and a request
  without any gets the copy back.\<close>

definition keep_clientdict :: "string \<Rightarrow> dict \<Rightarrow> state \<Rightarrow> dict \<times> state" where
  "keep_clientdict session cd st =
     (if 0 < length cd
      then (cd, save_session session (modify_session session (\<lambda>s. s\<lparr>session_clientdict := Some cd\<rparr>) st))
      else (case session_clientdict (session_of st session) of
              Some stored \<Rightarrow> (stored, st)
            | None \<Rightarrow> (cd, st)))"

text \<open>Lines 152 to 154: \<^verbatim>\<open>creds\<close> is the session's own map, made if absent.\<close>

definition ensure_creds :: "string \<Rightarrow> state \<Rightarrow> state" where
  "ensure_creds session st =
     (if session_creds (session_of st session) = None
      then modify_session session (\<lambda>s. s\<lparr>session_creds := Some []\<rparr>) st
      else st)"

definition creds_of :: "state \<Rightarrow> string \<Rightarrow> dict" where
  "creds_of st session = (case session_creds (session_of st session) of Some c \<Rightarrow> c | None \<Rightarrow> [])"

definition set_cred :: "string \<Rightarrow> string \<Rightarrow> val \<Rightarrow> state \<Rightarrow> state" where
  "set_cred session login_type result st =
     modify_session session
       (\<lambda>s. s\<lparr>session_creds := Some (AList.update login_type result (creds_of st session))\<rparr>) st"

text \<open>
  Lines 162 to 180: what the checker returned or raised. A result that is true is recorded
  and the session saved; a \<^verbatim>\<open>LoginError\<close> becomes the error dictionary of the
  response, except for the email stage, where it is raised again; any other exception
  passes through.
\<close>

fun checked :: "homeserver \<Rightarrow> string \<Rightarrow> string \<Rightarrow> error + val \<Rightarrow> state \<Rightarrow> (error + dict) \<times> state" where
  "checked hs session login_type (Inr result) st =
     (if truthy result
      then (Inr [], save_session session (set_cred session login_type result st))
      else (Inr [], st))"
| "checked hs session login_type (Inl (LoginError c m ec)) st =
     (if login_type = EMAIL_IDENTITY then (Inl (LoginError c m ec), st)
      else (Inr (error_dict hs (LoginError c m ec)), st))"
| "checked hs session login_type (Inl e) st = (Inl e, st)"

text \<open>Lines 156 to 180: the stage the \<^verbatim>\<open>auth\<close> block presents, if it names one.\<close>

definition check_stage ::
  "homeserver \<Rightarrow> val \<Rightarrow> string \<Rightarrow> string \<Rightarrow> state \<Rightarrow> (error + dict) \<times> state" where
  "check_stage hs authdict clientip session st =
     (case py_in ''type'' authdict of
        Inl e \<Rightarrow> (Inl e, st)
      | Inr False \<Rightarrow> (Inr [], st)
      | Inr True \<Rightarrow>
          (case py_getitem authdict ''type'' of
             Inl e \<Rightarrow> (Inl e, st)
           | Inr login_type \<Rightarrow>
               (case val_in_keys login_type (checkers hs) of
                  Inl e \<Rightarrow> (Inl e, st)
                | Inr False \<Rightarrow> (Inl (LoginError 400 (Msg '''') UNRECOGNIZED), st)
                | Inr True \<Rightarrow>
                    (case login_type of
                       VStr t \<Rightarrow>
                         (case map_of (checkers hs) t of
                            Some checker \<Rightarrow> checked hs session t (checker authdict clientip) st
                          | None \<Rightarrow> (Inl KeyError, st))
                     | _ \<Rightarrow> (Inl KeyError, st)))))"

text \<open>Lines 182 to 193: the loop over the flows returns at the first flow none of whose
  stages is missing from the credentials.\<close>

fun completed_flow :: "string list list \<Rightarrow> dict \<Rightarrow> bool" where
  "completed_flow [] creds = False"
| "completed_flow (f # fs) creds =
     (if length (remdups (filter (\<lambda>stage. stage \<notin> set (keys creds)) f)) = 0 then True
      else completed_flow fs creds)"

text \<open>Lines 182 to 198: the result of \<^verbatim>\<open>check_auth\<close> once the stage is dealt with.\<close>

definition flows_result ::
  "homeserver \<Rightarrow> string list list \<Rightarrow> dict \<Rightarrow> dict \<Rightarrow> dict \<Rightarrow> string
     \<Rightarrow> bool \<times> dict \<times> dict \<times> string" where
  "flows_result hs flows creds errordict clientdict session =
     (if completed_flow flows creds then (True, creds, clientdict, session)
      else
        (let ret = auth_dict_for_flows hs flows session;
             ret = AList.update ''completed'' (VList (map VStr (keys creds))) ret;
             ret = AList.merge ret errordict
         in (False, ret, clientdict, session)))"

text \<open>
  \<^verbatim>\<open>check_auth\<close>: the tuple \<^verbatim>\<open>(authed, dict, clientdict, session_id)\<close> or the error
  raised, with the state after the call; no result when no new session id is found.
  \<^verbatim>\<open>len(clientdict)\<close> raises on Python's \<^verbatim>\<open>None\<close>.
\<close>

definition check_auth ::
  "homeserver \<Rightarrow> string list list \<Rightarrow> dict option \<Rightarrow> string \<Rightarrow> state
     \<Rightarrow> ((error + bool \<times> dict \<times> dict \<times> string) \<times> state) option" where
  "check_auth hs flows clientdict clientip st =
     (case split_clientdict clientdict of
        Inl e \<Rightarrow> Some (Inl e, st)
      | Inr (authdict, sid, clientdict1) \<Rightarrow>
          (case get_session_info sid st of
             None \<Rightarrow> None
           | Some (Inl e, st1) \<Rightarrow> Some (Inl e, st1)
           | Some (Inr session, st1) \<Rightarrow>
               (case clientdict1 of
                  None \<Rightarrow> Some (Inl TypeError, st1)
                | Some cd \<Rightarrow>
                    (case keep_clientdict session cd st1 of
                       (clientdict2, st2) \<Rightarrow>
                         if \<not> truthy authdict
                         then Some (Inr (False, auth_dict_for_flows hs flows session,
                                         clientdict2, session), st2)
                         else
                           (case check_stage hs authdict clientip session
                                   (ensure_creds session st2) of
                              (Inl e, st3) \<Rightarrow> Some (Inl e, st3)
                            | (Inr errordict, st3) \<Rightarrow>
                                Some (Inr (flows_result hs flows (creds_of st3 session)
                                             errordict clientdict2 session), st3))))))"

text \<open>
  \<^verbatim>\<open>add_oob_auth\<close>: whether the stage was recorded, or the error raised. The stage type
  is the caller's string; the \<^verbatim>\<open>auth\<close> block is any value.
\<close>

definition add_oob_auth ::
  "homeserver \<Rightarrow> string \<Rightarrow> val \<Rightarrow> string \<Rightarrow> state \<Rightarrow> ((error + bool) \<times> state) option" where
  "add_oob_auth hs stagetype authdict clientip st =
     (case map_of (checkers hs) stagetype of
        None \<Rightarrow> Some (Inl (LoginError 400 (Msg '''') MISSING_PARAM), st)
      | Some checker \<Rightarrow>
          (case py_in ''session'' authdict of
             Inl e \<Rightarrow> Some (Inl e, st)
           | Inr False \<Rightarrow> Some (Inl (LoginError 400 (Msg '''') MISSING_PARAM), st)
           | Inr True \<Rightarrow>
               (case py_getitem authdict ''session'' of
                  Inl e \<Rightarrow> Some (Inl e, st)
                | Inr sid \<Rightarrow>
                    (case get_session_info sid st of
                       None \<Rightarrow> None
                     | Some (Inl e, st1) \<Rightarrow> Some (Inl e, st1)
                     | Some (Inr sess, st1) \<Rightarrow>
                         (let st2 = ensure_creds sess st1
                          in case checker authdict clientip of
                               Inl e \<Rightarrow> Some (Inl e, st2)
                             | Inr result \<Rightarrow>
                                 if truthy result
                                 then Some (Inr True,
                                            save_session sess (set_cred sess stagetype result st2))
                                 else Some (Inr False, st2))))))"

section \<open>Token issuer\<close>

text \<open>
  A macaroon of \<^verbatim>\<open>pymacaroons\<close> as the generator builds it: location, identifier,
  signing key and the first-party caveats in the order they were added. Its signature and
  its serialisation are the library's; \<open>serialize\<close> stands for the latter.
\<close>

record macaroon =
  macaroon_location :: string
  macaroon_identifier :: string
  macaroon_key :: string
  caveats :: "string list"

record macaroon_generator =
  server_name :: string
  macaroon_secret_key :: string
  serialize :: "macaroon \<Rightarrow> string"

definition add_first_party_caveat :: "string \<Rightarrow> macaroon \<Rightarrow> macaroon" where
  "add_first_party_caveat c m = m\<lparr>caveats := caveats m @ [c]\<rparr>"

text \<open>Python's \<^verbatim>\<open>"%d" % n\<close> for an integer: its decimal digits, after a minus sign when
  it is negative.\<close>

definition digit :: "nat \<Rightarrow> char" where
  "digit n = ''0123456789'' ! n"

function str_nat :: "nat \<Rightarrow> string" where
  "str_nat n = (if n < 10 then [digit n] else str_nat (n div 10) @ [digit (n mod 10)])"
  by pat_completeness auto
termination
  by (relation "measure id") auto

declare str_nat.simps [simp del]

definition str_int :: "int \<Rightarrow> string" where
  "str_int i = (if i < 0 then CHR ''-'' # str_nat (nat (- i)) else str_nat (nat i))"

text \<open>\<^verbatim>\<open>_generate_base_macaroon\<close> (the source file ends before its last line, which
  returns the macaroon to the three generators that use it).\<close>

definition generate_base_macaroon :: "macaroon_generator \<Rightarrow> string \<Rightarrow> macaroon" where
  "generate_base_macaroon g user_id =
     add_first_party_caveat (''user_id = '' @ user_id)
       (add_first_party_caveat ''gen = 1''
          \<lparr>macaroon_location = server_name g, macaroon_identifier = ''key'',
           macaroon_key = macaroon_secret_key g, caveats = []\<rparr>)"

text \<open>
  \<^verbatim>\<open>generate_short_term_login_token\<close>, with the clock's \<^verbatim>\<open>time_msec()\<close> as
  \<open>now\<close>; an absent duration is the default \<^verbatim>\<open>2 * 60 * 1000\<close>. \<open>login_expiry\<close> is the
  local \<^verbatim>\<open>expiry\<close> and \<open>short_term_login_macaroon\<close> the macaroon before it is
  serialised.
\<close>

definition login_expiry :: "int \<Rightarrow> int option \<Rightarrow> int" where
  "login_expiry now duration_in_ms =
     now + (case duration_in_ms of None \<Rightarrow> 2 * 60 * 1000 | Some d \<Rightarrow> d)"

definition short_term_login_macaroon ::
  "macaroon_generator \<Rightarrow> int \<Rightarrow> string \<Rightarrow> int option \<Rightarrow> macaroon" where
  "short_term_login_macaroon g now user_id duration_in_ms =
     (let macaroon = generate_base_macaroon g user_id;
          macaroon = add_first_party_caveat ''type = login'' macaroon;
          expiry = login_expiry now duration_in_ms
      in add_first_party_caveat (''time < '' @ str_int expiry) macaroon)"

definition generate_short_term_login_token ::
  "macaroon_generator \<Rightarrow> int \<Rightarrow> string \<Rightarrow> int option \<Rightarrow> string" where
  "generate_short_term_login_token g now user_id duration_in_ms =
     serialize g (short_term_login_macaroon g now user_id duration_in_ms)"

section \<open>Concrete inputs\<close>

text \<open>A small home server for the examples: three stored users of whom two differ in
  case only, a hash function that keeps the first character of the salt, a CAPTCHA
  service that accepts nothing and an identity service that validates nothing.\<close>

definition example_users :: "string \<Rightarrow> error + (string \<times> string option) list" where
  "example_users user_id =
     Inr (if user_id = ''@alice:hs'' then [(''@Alice:hs'', Some ''$h1'')]
          else if user_id = ''@bob:hs'' then [(''@Bob:hs'', Some ''$h2''), (''@bob:hs'', Some ''$h3'')]
          else if user_id = ''@BOB:hs'' then [(''@Bob:hs'', Some ''$h2''), (''@bob:hs'', Some ''$h3'')]
          else [])"

definition example_errcode :: "codes \<Rightarrow> string" where
  "example_errcode ec =
     (case ec of
        UNRECOGNIZED \<Rightarrow> ''M_UNRECOGNIZED''
      | MISSING_PARAM \<Rightarrow> ''M_MISSING_PARAM''
      | CAPTCHA_NEEDED \<Rightarrow> ''M_CAPTCHA_NEEDED''
      | UNAUTHORIZED \<Rightarrow> ''M_UNAUTHORIZED''
      | FORBIDDEN \<Rightarrow> ''M_FORBIDDEN'')"

definition example_hs :: homeserver where
  "example_hs =
     \<lparr>hostname = ''hs'',
      password_enabled = True,
      password_pepper = ''pepper'',
      password_providers = [],
      recaptcha_public_key = ''pk'',
      get_users_by_id_case_insensitive = example_users,
      hashpw = (\<lambda>pw salt. Inr (take 1 salt @ pw)),
      utf8_encode = Inr,
      post_urlencoded_get_json = (\<lambda>response ip. Body (VDict [(''success'', VBool False)])),
      simplejson_loads = (\<lambda>data. Inl (External ''json'')),
      threepid_from_creds = (\<lambda>c. Inr VNone),
      userid_to_string = (\<lambda>name domain. ''@'' @ name @ '':'' @ domain),
      error_dict = (\<lambda>e. case e of
                          LoginError c (Msg m) ec \<Rightarrow>
                            [(''errcode'', VStr (example_errcode ec)), (''error'', VStr m)]
                        | _ \<Rightarrow> [])\<rparr>"

definition example_state :: state where
  "example_state = \<lparr>sessions = Map.empty, time_msec = 1000, random_strings = [''sid1'', ''sid2'']\<rparr>"

text \<open>A state with one session that has completed two stages, before and after the dummy
  stage is presented to it once more.\<close>

definition replay_state :: state where
  "replay_state =
     \<lparr>sessions = [''s1'' \<mapsto> \<lparr>session_creds = Some [(RECAPTCHA, VBool True), (DUMMY, VBool True)],
                             session_clientdict = None, session_last_used = Some 10\<rparr>],
      time_msec = 1000, random_strings = [''sid1'', ''sid2'']\<rparr>"

definition replay_after :: state where
  "replay_after =
     \<lparr>sessions = [''s1'' \<mapsto> \<lparr>session_creds = Some [(RECAPTCHA, VBool True), (DUMMY, VBool True)],
                             session_clientdict = None, session_last_used = Some 1000\<rparr>],
      time_msec = 1000, random_strings = [''sid1'', ''sid2'']\<rparr>"

definition example_generator :: macaroon_generator where
  "example_generator =
     \<lparr>server_name = ''hs'', macaroon_secret_key = ''secret'',
      serialize = (\<lambda>m. concat (map (\<lambda>c. c @ ''; '') (caveats m)))\<rparr>"

text \<open>A provider that knows the custom login type \<^verbatim>\<open>m.login.custom\<close>, asks for the field
  \<^verbatim>\<open>token\<close> and accepts nothing, and one whose every check raises.\<close>

definition custom_provider :: provider where
  "custom_provider =
     \<lparr>provider_check_password = None,
      provider_login_types = Some [(''m.login.custom'', [''token''])],
      provider_check_auth = Some (\<lambda>username login_type login_dict. Inr PNone)\<rparr>"

definition raising_provider :: provider where
  "raising_provider =
     \<lparr>provider_check_password = Some (\<lambda>user_id password. Inl (External ''provider'')),
      provider_login_types = Some [(PASSWORD, [])],
      provider_check_auth = Some (\<lambda>username login_type login_dict. Inl (External ''provider''))\<rparr>"

text \<open>The example state after a first request whose stage failed.\<close>

definition email_failed_state :: state where
  "email_failed_state =
     \<lparr>sessions = [''sid1'' \<mapsto> \<lparr>session_creds = Some [], session_clientdict = None,
                               session_last_used = None\<rparr>],
      time_msec = 1000, random_strings = [''sid2'']\<rparr>"

section \<open>Predicates of the properties\<close>

text \<open>
  A provider declares a login type when it has both \<^verbatim>\<open>get_supported_login_types\<close> and
  \<^verbatim>\<open>check_auth\<close> and the type is a key of the former: the condition under which the loop
  of \<^verbatim>\<open>validate_login\<close> sets \<^verbatim>\<open>known_login_type\<close> for a custom type.
\<close>

definition declares :: "provider \<Rightarrow> val \<Rightarrow> bool" where
  "declares p login_type =
     (case login_type of
        VStr t \<Rightarrow>
          (case provider_login_types p of
             Some types \<Rightarrow> provider_check_auth p \<noteq> None \<and> t \<in> set (keys types)
           | None \<Rightarrow> False)
      | _ \<Rightarrow> False)"

text \<open>
  Two states hold the same credentials when every session of the first is a session of the
  second and every credential map is the same; the credentials have grown when every map
  is the same or has one entry set, under one of the given stage types and to a result
  that is true.
\<close>

definition same_creds :: "state \<Rightarrow> state \<Rightarrow> bool" where
  "same_creds st st' =
     ((\<forall>s. sessions st s \<noteq> None \<longrightarrow> sessions st' s \<noteq> None)
      \<and> (\<forall>s. creds_of st' s = creds_of st s))"

definition grown_creds :: "string set \<Rightarrow> state \<Rightarrow> state \<Rightarrow> bool" where
  "grown_creds stage_types st st' =
     ((\<forall>s. sessions st s \<noteq> None \<longrightarrow> sessions st' s \<noteq> None)
      \<and> (\<forall>s. creds_of st' s = creds_of st s
              \<or> (\<exists>t v. t \<in> stage_types \<and> truthy v
                       \<and> creds_of st' s = AList.update t v (creds_of st s))))"

section \<open>Properties\<close>

subsection \<open>The session store under the operations\<close>

lemma same_creds_refl: "same_creds st st"
  by (simp add: same_creds_def)

lemma same_creds_trans: "same_creds a b \<Longrightarrow> same_creds b c \<Longrightarrow> same_creds a c"
  by (simp add: same_creds_def)

lemma same_grown: "same_creds a b \<Longrightarrow> grown_creds K a b"
  by (simp add: same_creds_def grown_creds_def)

lemma same_grown_trans: "same_creds a b \<Longrightarrow> grown_creds K b c \<Longrightarrow> grown_creds K a c"
  by (simp add: same_creds_def grown_creds_def)

lemma grown_same_trans: "grown_creds K a b \<Longrightarrow> same_creds b c \<Longrightarrow> grown_creds K a c"
  by (simp add: same_creds_def grown_creds_def)

lemma session_of_modify:
  "session_of (modify_session s f st) s' = (if s' = s then f (session_of st s) else session_of st s')"
  by (simp add: session_of_def modify_session_def)

lemma sessions_modify:
  "sessions (modify_session s f st) s' = (if s' = s then Some (f (session_of st s)) else sessions st s')"
  by (simp add: modify_session_def)

lemma same_creds_modify:
  assumes "session_creds (f (session_of st s)) = session_creds (session_of st s)
           \<or> (session_creds (session_of st s) = None \<and> session_creds (f (session_of st s)) = Some [])"
  shows "same_creds st (modify_session s f st)"
  using assms
  by (auto simp: same_creds_def creds_of_def session_of_modify sessions_modify)

lemma same_creds_save: "same_creds st (save_session s st)"
  unfolding save_session_def by (rule same_creds_modify) simp

lemma same_creds_ensure: "same_creds st (ensure_creds s st)"
  unfolding ensure_creds_def
  by (auto intro: same_creds_modify same_creds_refl)

lemma creds_of_set_cred:
  "creds_of (set_cred s t v st) s' = (if s' = s then AList.update t v (creds_of st s) else creds_of st s')"
  by (simp add: set_cred_def creds_of_def session_of_modify)

lemma grown_creds_set_cred:
  assumes "t \<in> K" and "truthy v"
  shows "grown_creds K st (set_cred s t v st)"
proof -
  have "\<forall>x. sessions st x \<noteq> None \<longrightarrow> sessions (set_cred s t v st) x \<noteq> None"
    by (simp add: set_cred_def sessions_modify)
  with assms show ?thesis
    by (auto simp: grown_creds_def creds_of_set_cred)
qed

lemma random_session_id_fresh:
  "random_session_id ss rs = Some (i, rest) \<Longrightarrow> ss i = None"
  by (induction rs) (auto split: if_splits)

lemma create_session_result:
  assumes "create_session st = Some (r, st1)"
  shows "\<exists>i. r = Inr i \<and> sessions st i = None \<and> sessions st1 i = Some new_session \<and> same_creds st st1"
proof -
  from assms obtain i rest where
    rnd: "random_session_id (sessions st) (random_strings st) = Some (i, rest)" and
    r: "r = Inr i" and
    st1: "st1 = st\<lparr>sessions := (sessions st)(i \<mapsto> new_session), random_strings := rest\<rparr>"
    by (auto simp: create_session_def split: option.splits)
  from rnd have fresh: "sessions st i = None"
    by (rule random_session_id_fresh)
  with st1 have "same_creds st st1"
    by (auto simp: same_creds_def creds_of_def session_of_def new_session_def)
  with r fresh st1 show ?thesis by simp
qed

lemma get_session_info_same:
  assumes "get_session_info v st = Some (r, st1)"
  shows "same_creds st st1"
  using assms
  by (cases v)
     (auto simp: get_session_info_def same_creds_refl
           split: if_splits dest: create_session_result)

lemma keep_clientdict_same:
  assumes "keep_clientdict s cd st = (cd2, st2)"
  shows "same_creds st st2"
proof (cases "0 < length cd")
  case True
  with assms have "st2 = save_session s (modify_session s (\<lambda>x. x\<lparr>session_clientdict := Some cd\<rparr>) st)"
    by (auto simp: keep_clientdict_def)
  moreover have "same_creds st (modify_session s (\<lambda>x. x\<lparr>session_clientdict := Some cd\<rparr>) st)"
    by (rule same_creds_modify) simp
  ultimately show ?thesis
    by (auto intro: same_creds_trans same_creds_save)
next
  case False
  with assms have "st2 = st"
    by (auto simp: keep_clientdict_def split: option.splits)
  then show ?thesis by (simp add: same_creds_refl)
qed

lemma checked_grown:
  assumes "checked hs s t res st = (r, st')" and "t \<in> K"
  shows "grown_creds K st st'"
  using assms
  by (cases "(hs, s, t, res, st)" rule: checked.cases)
     (auto split: if_splits
           intro: same_grown same_creds_refl grown_same_trans [OF grown_creds_set_cred same_creds_save])

lemma map_of_keys: "map_of d k = Some v \<Longrightarrow> k \<in> set (keys d)"
  by (auto simp: keys_def dest: map_of_SomeD intro: rev_image_eqI)

lemma check_stage_grown:
  assumes "check_stage hs authdict clientip s st = (r, st')"
  shows "grown_creds (set (keys (checkers hs))) st st'"
  using assms
  by (auto simp: check_stage_def split: sum.splits bool.splits val.splits option.splits
           intro: same_grown same_creds_refl dest: checked_grown map_of_keys)


lemma check_auth_grown:
  assumes "check_auth hs flows clientdict clientip st = Some (r, st')"
  shows "grown_creds (set (keys (checkers hs))) st st'"
proof (cases "split_clientdict clientdict")
  case (Inl e)
  with assms show ?thesis
    by (simp add: check_auth_def same_grown same_creds_refl)
next
  case (Inr x)
  then obtain authdict sid clientdict1 where
    split: "split_clientdict clientdict = Inr (authdict, sid, clientdict1)"
    by (cases x) auto
  with assms obtain r1 st1 where gsi: "get_session_info sid st = Some (r1, st1)"
    by (auto simp: check_auth_def split: option.splits)
  have s01: "same_creds st st1"
    using gsi by (rule get_session_info_same)
  show ?thesis
  proof (cases r1)
    case (Inl e)
    with assms split gsi have "st' = st1"
      by (simp add: check_auth_def)
    with s01 show ?thesis by (simp add: same_grown)
  next
    case session: (Inr session)
    show ?thesis
    proof (cases clientdict1)
      case None
      with assms split gsi session have "st' = st1"
        by (simp add: check_auth_def)
      with s01 show ?thesis by (simp add: same_grown)
    next
      case (Some cd)
      obtain clientdict2 st2 where keep: "keep_clientdict session cd st1 = (clientdict2, st2)"
        by (cases "keep_clientdict session cd st1") auto
      have s12: "same_creds st1 st2"
        using keep by (rule keep_clientdict_same)
      show ?thesis
      proof (cases "truthy authdict")
        case False
        with assms split gsi session Some keep have "st' = st2"
          by (simp add: check_auth_def)
        with s01 s12 show ?thesis
          by (auto intro: same_grown same_creds_trans)
      next
        case True
        obtain r3 st3 where
          stage: "check_stage hs authdict clientip session (ensure_creds session st2) = (r3, st3)"
          by (cases "check_stage hs authdict clientip session (ensure_creds session st2)") auto
        with assms split gsi session Some keep True have "st' = st3"
          by (auto simp: check_auth_def split: sum.splits)
        moreover have "same_creds st (ensure_creds session st2)"
          using s01 s12 same_creds_ensure [of st2 session]
          by (auto intro: same_creds_trans)
        moreover have "grown_creds (set (keys (checkers hs))) (ensure_creds session st2) st3"
          using stage by (rule check_stage_grown)
        ultimately show ?thesis
          by (auto intro: same_grown_trans)
      qed
    qed
  qed
qed

lemma add_oob_auth_grown:
  assumes "add_oob_auth hs stagetype authdict clientip st = Some (r, st')"
  shows "grown_creds (set (keys (checkers hs))) st st'"
proof (cases "map_of (checkers hs) stagetype")
  case None
  with assms show ?thesis
    by (simp add: add_oob_auth_def same_grown same_creds_refl)
next
  case (Some checker)
  show ?thesis
  proof (cases "\<exists>sid. py_in ''session'' authdict = Inr True \<and> py_getitem authdict ''session'' = Inr sid")
    case False
    with assms Some have "st' = st"
      by (auto simp: add_oob_auth_def split: sum.splits bool.splits)
    then show ?thesis by (simp add: same_grown same_creds_refl)
  next
    case True
    then obtain sid where
      sid: "py_in ''session'' authdict = Inr True" "py_getitem authdict ''session'' = Inr sid"
      by auto
    with assms Some obtain r1 st1 where gsi: "get_session_info sid st = Some (r1, st1)"
      by (auto simp: add_oob_auth_def split: option.splits)
    have s01: "same_creds st st1"
      using gsi by (rule get_session_info_same)
    show ?thesis
    proof (cases r1)
      case (Inl e)
      with assms Some sid gsi have "st' = st1"
        by (simp add: add_oob_auth_def)
      with s01 show ?thesis by (simp add: same_grown)
    next
      case (Inr sess)
      have s02: "same_creds st (ensure_creds sess st1)"
        using s01 same_creds_ensure [of st1 sess] by (auto intro: same_creds_trans)
      from Some have known: "stagetype \<in> set (keys (checkers hs))"
        by (rule map_of_keys)
      from assms Some sid gsi Inr
      have "st' = ensure_creds sess st1
            \<or> (\<exists>result. truthy result
                  \<and> st' = save_session sess (set_cred sess stagetype result (ensure_creds sess st1)))"
        by (auto simp: add_oob_auth_def Let_def split: sum.splits if_splits)
      then show ?thesis
      proof
        assume "st' = ensure_creds sess st1"
        with s02 show ?thesis by (simp add: same_grown)
      next
        assume "\<exists>result. truthy result
                  \<and> st' = save_session sess (set_cred sess stagetype result (ensure_creds sess st1))"
        then obtain result where "truthy result" and
          "st' = save_session sess (set_cred sess stagetype result (ensure_creds sess st1))"
          by auto
        with known have "grown_creds (set (keys (checkers hs))) (ensure_creds sess st1) st'"
          by (auto intro: grown_same_trans [OF grown_creds_set_cred same_creds_save])
        with s02 show ?thesis by (rule same_grown_trans)
      qed
    qed
  qed
qed

lemma keys_update: "set (keys (AList.update t v c)) = insert t (set (keys c))"
  by (simp add: keys_def dom_update)

lemma grown_creds_keys:
  assumes "grown_creds K st st'"
  shows "(\<forall>s. sessions st s \<noteq> None \<longrightarrow> sessions st' s \<noteq> None)
       \<and> (\<forall>s k. k \<in> set (keys (creds_of st s)) \<longrightarrow> k \<in> set (keys (creds_of st' s)))
       \<and> (\<forall>s. \<exists>t. \<forall>k. k \<noteq> t \<longrightarrow> map_of (creds_of st' s) k = map_of (creds_of st s) k)"
proof (intro conjI allI impI)
  fix s assume "sessions st s \<noteq> None"
  with assms show "sessions st' s \<noteq> None" by (simp add: grown_creds_def)
next
  fix s k assume k: "k \<in> set (keys (creds_of st s))"
  from assms have "creds_of st' s = creds_of st s
       \<or> (\<exists>t v. creds_of st' s = AList.update t v (creds_of st s))"
    unfolding grown_creds_def by blast
  with k show "k \<in> set (keys (creds_of st' s))"
    by (auto simp: keys_update)
next
  fix s
  from assms have "creds_of st' s = creds_of st s
       \<or> (\<exists>t v. creds_of st' s = AList.update t v (creds_of st s))"
    unfolding grown_creds_def by blast
  then show "\<exists>t. \<forall>k. k \<noteq> t \<longrightarrow> map_of (creds_of st' s) k = map_of (creds_of st s) k"
    by (auto simp: update_conv')
qed


subsection \<open>Evaluation\<close>

text \<open>The equations that evaluate the handler on a concrete request.\<close>

lemmas stage_types = PASSWORD_def RECAPTCHA_def EMAIL_IDENTITY_def MSISDN_def DUMMY_def

lemma keys_Nil: "keys [] = []"
  by (simp add: keys_def)

lemma keys_Cons: "keys ((k, v) # d) = k # keys d"
  by (simp add: keys_def)

lemmas uia_defs =
  check_auth_def split_clientdict_def keys_Nil keys_Cons dict_get_def get_session_info_def
  create_session_def keep_clientdict_def check_stage_def checkers_def check_dummy_auth_def
  ensure_creds_def session_of_def new_session_def modify_session_def save_session_def
  set_cred_def creds_of_def flows_result_def auth_dict_for_flows_def get_params_recaptcha_def
  add_oob_auth_def check_recaptcha_def check_email_identity_def check_msisdn_def
  check_threepid_def Let_def

subsection \<open>Completion of a flow\<close>

lemma completed_flow_iff:
  "completed_flow flows c = (\<exists>f\<in>set flows. set f \<subseteq> set (keys c))"
proof (induction flows)
  case Nil
  then show ?case by simp
next
  case (Cons f fs)
  have "(length (remdups (filter (\<lambda>stage. stage \<notin> set (keys c)) f)) = 0) = (set f \<subseteq> set (keys c))"
    by (auto simp: filter_empty_conv)
  with Cons show ?case by auto
qed

lemma split_clientdict_falsy:
  assumes "split_clientdict clientdict = Inr (authdict, sid, clientdict1)" and "\<not> truthy authdict"
  shows "sid = VNone"
proof (cases clientdict)
  case None
  with assms show ?thesis by (simp add: split_clientdict_def)
next
  case (Some c)
  show ?thesis
  proof (cases "c \<noteq> [] \<and> ''auth'' \<in> set (keys c)")
    case False
    with assms Some show ?thesis by (auto simp: split_clientdict_def)
  next
    case True
    with assms Some have a: "authdict = dict_get c ''auth''"
      by (auto simp: split_clientdict_def Let_def split: sum.splits bool.splits)
    from assms(2) have "py_in ''session'' authdict = Inr False \<or> py_in ''session'' authdict = Inl TypeError"
      by (cases authdict) (simp_all add: keys_def)
    with assms Some True a show ?thesis
      by (auto simp: split_clientdict_def Let_def)
  qed
qed

lemma split_clientdict_auth:
  assumes "split_clientdict (Some c) = Inr (authdict, sid, clientdict1)"
    and "map_of c ''auth'' = Some a"
  shows "authdict = a"
proof -
  from assms(2) have "c \<noteq> []" and "''auth'' \<in> set (keys c)"
    by (auto simp: keys_def dest: map_of_SomeD intro: rev_image_eqI)
  with assms show ?thesis
    by (auto simp: split_clientdict_def Let_def dict_get_def split: sum.splits bool.splits)
qed

lemma get_session_info_new:
  assumes "get_session_info VNone st = Some (Inr session, st1)"
  shows "creds_of st1 session = []"
proof -
  from assms have "create_session st = Some (Inr session, st1)"
    by (simp add: get_session_info_def)
  from create_session_result [OF this] have "sessions st session = None" and "same_creds st st1"
    by auto
  then show ?thesis
    by (simp add: same_creds_def creds_of_def session_of_def new_session_def)
qed

text \<open>C1, as the spec states it for every list of flows and every session, fails where
  \<^verbatim>\<open>check_auth\<close> does not reach the loop over the flows: a request without an
  \<^verbatim>\<open>auth\<close> block gets the incomplete response although the empty flow of the list is
  contained in the credentials of its session, and a request that names a stage type
  without a checker raises although the flow of the list is contained in the credentials
  of its session.\<close>

theorem check_auth_incomplete_though_flow_satisfied:
  "fst (the (check_auth example_hs [[]] (Some []) ''ip'' example_state))
     = Inr (False, [(''session'', VStr ''sid1''), (''flows'', VList [VDict [(''stages'', VList [])]]),
                   (''params'', VDict [])], [], ''sid1'')
   \<and> [] \<in> set [[] :: string list]
   \<and> set ([] :: string list)
       \<subseteq> set (keys (creds_of (snd (the (check_auth example_hs [[]] (Some []) ''ip'' example_state))) ''sid1''))
   \<and> check_auth example_hs [[DUMMY]]
         (Some [(''auth'', VDict [(''session'', VStr ''s1''), (''type'', VStr ''m.login.bogus'')])])
         ''ip'' replay_state
     = Some (Inl (LoginError 400 (Msg []) UNRECOGNIZED), replay_state)
   \<and> set [DUMMY] \<subseteq> set (keys (creds_of replay_state ''s1''))"
  by (simp add: uia_defs stage_types example_state_def example_hs_def replay_state_def)

text \<open>C1, amended: whenever \<^verbatim>\<open>check_auth\<close> returns its tuple, for a request that presents
  an \<^verbatim>\<open>auth\<close> block that is true or for flows none of which is empty, it reports
  authentication complete if and only if some flow of the list has all its stage types
  among the keys of the session's credential map, and then the dictionary it returns is that
  map. The condition reads the flow and the credentials as sets, so neither the order of
  the stages in a flow nor the order in which they were completed matters.\<close>

theorem check_auth_complete_iff:
  assumes ret: "check_auth hs flows clientdict clientip st = Some (Inr (authed, resp, cd, sid), st')"
    and scope: "[] \<notin> set flows \<or> (\<exists>c a. clientdict = Some c \<and> map_of c ''auth'' = Some a \<and> truthy a)"
  shows "(authed \<longleftrightarrow> (\<exists>f\<in>set flows. set f \<subseteq> set (keys (creds_of st' sid))))
       \<and> (authed \<longrightarrow> resp = creds_of st' sid)"
proof -
  from ret obtain authdict sid0 c where
    split: "split_clientdict clientdict = Inr (authdict, sid0, Some c)"
    by (auto simp: check_auth_def split: sum.splits option.splits prod.splits)
  with ret obtain session st1 where
    gsi: "get_session_info sid0 st = Some (Inr session, st1)"
    by (auto simp: check_auth_def split: sum.splits option.splits prod.splits)
  obtain clientdict2 st2 where keep: "keep_clientdict session c st1 = (clientdict2, st2)"
    by (cases "keep_clientdict session c st1") auto
  show ?thesis
  proof (cases "truthy authdict")
    case True
    with ret split gsi keep obtain errordict where
      "check_stage hs authdict clientip session (ensure_creds session st2) = (Inr errordict, st')"
      and "(authed, resp, cd, sid) = flows_result hs flows (creds_of st' session) errordict clientdict2 session"
      by (auto simp: check_auth_def split: sum.splits prod.splits)
    then show ?thesis
      by (auto simp: flows_result_def Let_def completed_flow_iff split: if_splits)
  next
    case False
    with ret split gsi keep have res: "authed = False" "sid = session" "st' = st2"
      by (auto simp: check_auth_def)
    from split False have "sid0 = VNone"
      by (rule split_clientdict_falsy)
    with gsi have "creds_of st1 session = []"
      by (simp add: get_session_info_new)
    moreover from keep have "same_creds st1 st2"
      by (rule keep_clientdict_same)
    ultimately have empty: "creds_of st' sid = []"
      using res by (simp add: same_creds_def)
    from scope split False have "[] \<notin> set flows"
      by (auto dest: split_clientdict_auth)
    then have "\<not> (\<exists>f\<in>set flows. set f \<subseteq> set (keys ([] :: dict)))"
      by (auto simp: keys_def)
    with res empty show ?thesis by simp
  qed
qed


theorem check_auth_complete_iff_witness:
  "check_auth example_hs [[MSISDN], [DUMMY, RECAPTCHA]]
     (Some [(''auth'', VDict [(''session'', VStr ''s1'')])]) ''ip'' replay_state
     = Some (Inr (True, [(RECAPTCHA, VBool True), (DUMMY, VBool True)], [], ''s1''), replay_state)
   \<and> (\<exists>f\<in>set [[MSISDN], [DUMMY, RECAPTCHA]]. set f \<subseteq> set (keys (creds_of replay_state ''s1'')))
   \<and> check_auth example_hs [[MSISDN], [DUMMY, RECAPTCHA]] (Some []) ''ip'' replay_state
     = Some (Inr (False, auth_dict_for_flows example_hs [[MSISDN], [DUMMY, RECAPTCHA]] ''sid1'', [], ''sid1''),
             replay_state\<lparr>sessions := (sessions replay_state)(''sid1'' \<mapsto> new_session),
                          random_strings := [''sid2'']\<rparr>)
   \<and> \<not> (\<exists>f\<in>set [[MSISDN], [DUMMY, RECAPTCHA]].
          set f \<subseteq> set (keys (creds_of
            (replay_state\<lparr>sessions := (sessions replay_state)(''sid1'' \<mapsto> new_session),
                          random_strings := [''sid2'']\<rparr>) ''sid1'')))"
proof -
  let ?flows = "[[MSISDN], [DUMMY, RECAPTCHA]]"
  have a: "check_auth example_hs ?flows
       (Some [(''auth'', VDict [(''session'', VStr ''s1'')])]) ''ip'' replay_state
     = Some (Inr (True, [(RECAPTCHA, VBool True), (DUMMY, VBool True)], [], ''s1''), replay_state)"
    by (simp add: uia_defs stage_types replay_state_def example_hs_def)
  have b: "check_auth example_hs ?flows (Some []) ''ip'' replay_state
     = Some (Inr (False, auth_dict_for_flows example_hs ?flows ''sid1'', [], ''sid1''),
             replay_state\<lparr>sessions := (sessions replay_state)(''sid1'' \<mapsto> new_session),
                          random_strings := [''sid2'']\<rparr>)"
    by (simp add: uia_defs stage_types replay_state_def example_hs_def)
  have c: "[] \<notin> set ?flows \<or> (\<exists>c a. Some [(''auth'', VDict [(''session'', VStr ''s1'')])] = Some c
              \<and> map_of c ''auth'' = Some a \<and> truthy a)"
    and d: "[] \<notin> set ?flows \<or> (\<exists>c a. Some [] = Some c \<and> map_of c ''auth'' = Some a \<and> truthy a)"
    by simp_all
  from check_auth_complete_iff [OF a c] check_auth_complete_iff [OF b d] a b
  show ?thesis by simp
qed

subsection \<open>A stage that fails\<close>





subsection \<open>A stage type without a checker\<close>

lemma add_oob_auth_unregistered:
  assumes "map_of (checkers hs) stagetype = None"
  shows "add_oob_auth hs stagetype authdict clientip st
           = Some (Inl (LoginError 400 (Msg []) MISSING_PARAM), st)"
  using assms by (simp add: add_oob_auth_def)

text \<open>C3: for a stage type without a checker \<^verbatim>\<open>add_oob_auth\<close> raises a
  \<^verbatim>\<open>LoginError\<close> with the code \<open>MISSING_PARAM\<close>, where \<^verbatim>\<open>check_auth\<close> raises it
  with the code \<open>UNRECOGNIZED\<close> for the same stage type in the same session.\<close>

theorem add_oob_auth_unknown_stage_type:
  "add_oob_auth example_hs ''m.login.bogus'' (VDict [(''session'', VStr ''sid1'')]) ''ip'' email_failed_state
     = Some (Inl (LoginError 400 (Msg []) MISSING_PARAM), email_failed_state)
   \<and> check_auth example_hs [[DUMMY]]
       (Some [(''auth'', VDict [(''session'', VStr ''sid1''), (''type'', VStr ''m.login.bogus'')])])
       ''ip'' email_failed_state
     = Some (Inl (LoginError 400 (Msg []) UNRECOGNIZED), email_failed_state)"
  by (simp add: uia_defs stage_types email_failed_state_def example_hs_def)

subsection \<open>The dummy stage\<close>




subsection \<open>The credentials of a session only grow\<close>

text \<open>C2: whatever \<^verbatim>\<open>check_auth\<close> or \<^verbatim>\<open>add_oob_auth\<close> returns or raises, every
  session of the state before is a session of the state after, every stage type recorded in
  a session's credentials before is recorded after, and each credential map is the old one
  or the old one with a single entry set, under a stage type that has a checker and to a
  result that is true: all entries under other stage types stay as they were, also when a
  stage already recorded is presented again.\<close>

theorem credentials_only_grow:
  assumes "check_auth hs flows clientdict clientip st = Some (r, st')
           \<or> add_oob_auth hs stagetype authdict clientip st = Some (r', st')"
  shows "(\<forall>s. sessions st s \<noteq> None \<longrightarrow> sessions st' s \<noteq> None)
       \<and> (\<forall>s k. k \<in> set (keys (creds_of st s)) \<longrightarrow> k \<in> set (keys (creds_of st' s)))
       \<and> (\<forall>s. creds_of st' s = creds_of st s
                \<or> (\<exists>t v. t \<in> set (keys (checkers hs)) \<and> truthy v
                         \<and> creds_of st' s = AList.update t v (creds_of st s)))
       \<and> (\<forall>s. \<exists>t. \<forall>k. k \<noteq> t \<longrightarrow> map_of (creds_of st' s) k = map_of (creds_of st s) k)"
proof -
  from assms have g: "grown_creds (set (keys (checkers hs))) st st'"
    by (auto dest: check_auth_grown add_oob_auth_grown)
  then have "\<forall>s. creds_of st' s = creds_of st s
                \<or> (\<exists>t v. t \<in> set (keys (checkers hs)) \<and> truthy v
                         \<and> creds_of st' s = AList.update t v (creds_of st s))"
    by (simp add: grown_creds_def)
  with grown_creds_keys [OF g] show ?thesis by simp
qed

theorem credentials_only_grow_witness:
  "check_auth example_hs [[DUMMY, MSISDN]]
     (Some [(''auth'', VDict [(''session'', VStr ''s1''), (''type'', VStr DUMMY)])]) ''ip'' replay_state
     = Some (Inr (False,
             [(''session'', VStr ''s1''),
              (''flows'', VList [VDict [(''stages'', VList [VStr DUMMY, VStr MSISDN])]]),
              (''params'', VDict []),
              (''completed'', VList [VStr RECAPTCHA, VStr DUMMY])], [], ''s1''), replay_after)
   \<and> add_oob_auth example_hs DUMMY (VDict [(''session'', VStr ''s1'')]) ''ip'' replay_state
     = Some (Inr True, replay_after)
   \<and> sessions replay_after ''s1'' \<noteq> None
   \<and> RECAPTCHA \<in> set (keys (creds_of replay_after ''s1''))"
proof -
  have a: "check_auth example_hs [[DUMMY, MSISDN]]
       (Some [(''auth'', VDict [(''session'', VStr ''s1''), (''type'', VStr DUMMY)])]) ''ip'' replay_state
     = Some (Inr (False,
             [(''session'', VStr ''s1''),
              (''flows'', VList [VDict [(''stages'', VList [VStr DUMMY, VStr MSISDN])]]),
              (''params'', VDict []),
              (''completed'', VList [VStr RECAPTCHA, VStr DUMMY])], [], ''s1''), replay_after)"
    by (simp add: uia_defs stage_types replay_state_def replay_after_def example_hs_def)
  have b: "add_oob_auth example_hs DUMMY (VDict [(''session'', VStr ''s1'')]) ''ip'' replay_state
     = Some (Inr True, replay_after)"
    by (simp add: uia_defs stage_types replay_state_def replay_after_def example_hs_def)
  have c: "sessions replay_state ''s1'' \<noteq> None"
    and d: "RECAPTCHA \<in> set (keys (creds_of replay_state ''s1''))"
    by (simp_all add: replay_state_def creds_of_def session_of_def keys_Nil keys_Cons)
  from credentials_only_grow [OF disjI1 [OF a]] c
  have "sessions replay_after ''s1'' \<noteq> None" by blast
  moreover from credentials_only_grow [OF disjI2 [OF b]] d
  have "RECAPTCHA \<in> set (keys (creds_of replay_after ''s1''))" by blast
  ultimately show ?thesis using a b by simp
qed


subsection \<open>The short-term login token\<close>

text \<open>The decimal form of an integer determines it.\<close>

lemma digits_below_10:
  "(n < 10) = (n \<in> set [0, 1, 2, 3, 4, 5, 6, 7, 8, 9::nat])"
  by auto

lemma digit_less_10:
  assumes "n < 10"
  shows "length (takeWhile (\<lambda>d. d \<noteq> digit n) ''0123456789'') = n"
  using assms unfolding digits_below_10
  by (auto simp: digit_def)

lemma digit_not_minus:
  assumes "n < 10"
  shows "digit n \<noteq> CHR ''-''"
  using assms unfolding digits_below_10
  by (auto simp: digit_def)

lemma read_str_nat:
  assumes dv: "\<And>k. k < 10 \<Longrightarrow> dv (digit k) = k"
  shows "foldl (\<lambda>a c. 10 * a + dv c) 0 (str_nat n) = n"
proof (induction n rule: str_nat.induct)
  case (1 n)
  show ?case
  proof (cases "n < 10")
    case True
    then show ?thesis
      by (subst str_nat.simps) (simp add: dv)
  next
    case False
    with 1 have "foldl (\<lambda>a c. 10 * a + dv c) 0 (str_nat (n div 10)) = n div 10"
      by simp
    with False show ?thesis
      by (subst str_nat.simps) (simp add: dv)
  qed
qed

lemma str_nat_inj:
  assumes "str_nat a = str_nat b"
  shows "a = b"
proof -
  let ?dv = "\<lambda>c. length (takeWhile (\<lambda>d. d \<noteq> c) ''0123456789'')"
  have "foldl (\<lambda>a c. 10 * a + ?dv c) 0 (str_nat a) = a"
    and "foldl (\<lambda>a c. 10 * a + ?dv c) 0 (str_nat b) = b"
    by (rule read_str_nat, rule digit_less_10, assumption)+
  with assms show ?thesis by simp
qed

lemma str_nat_hd: "\<exists>c cs. str_nat n = c # cs \<and> c \<noteq> CHR ''-''"
proof (induction n rule: str_nat.induct)
  case (1 n)
  show ?case
  proof (cases "n < 10")
    case True
    then show ?thesis
      by (subst str_nat.simps) (simp add: digit_not_minus)
  next
    case False
    with 1 obtain c cs where "str_nat (n div 10) = c # cs" "c \<noteq> CHR ''-''"
      by auto
    with False show ?thesis
      by (subst str_nat.simps) simp
  qed
qed

lemma str_int_inj:
  assumes "str_int a = str_int b"
  shows "a = b"
proof -
  obtain c cs where a: "str_nat (nat a) = c # cs" "c \<noteq> CHR ''-''"
    using str_nat_hd by blast
  obtain d ds where b: "str_nat (nat b) = d # ds" "d \<noteq> CHR ''-''"
    using str_nat_hd by blast
  from assms a b have sign: "(a < 0) = (b < 0)"
    by (auto simp: str_int_def split: if_splits)
  show ?thesis
  proof (cases "a < 0")
    case True
    with sign assms have "str_nat (nat (- a)) = str_nat (nat (- b))"
      by (simp add: str_int_def)
    then have "nat (- a) = nat (- b)" by (rule str_nat_inj)
    with True sign show ?thesis by simp
  next
    case False
    with sign assms have "str_nat (nat a) = str_nat (nat b)"
      by (simp add: str_int_def)
    then have "nat a = nat b" by (rule str_nat_inj)
    with False sign show ?thesis by simp
  qed
qed

text \<open>C8: the login token is the serialised macaroon whose caveats are, in this order,
  \<^verbatim>\<open>gen = 1\<close>, \<^verbatim>\<open>user_id = <id>\<close>, \<^verbatim>\<open>type = login\<close> and \<^verbatim>\<open>time < <expiry>\<close>,
  where the expiry is the clock's time plus the duration, 120000 ms when the caller gives
  none; for a positive duration, and for the default, the expiry is after the time of
  issue, and it is the only integer the last caveat denotes.\<close>

theorem generate_short_term_login_token_caveats:
  "generate_short_term_login_token g now user_id duration_in_ms
     = serialize g (short_term_login_macaroon g now user_id duration_in_ms)
   \<and> caveats (short_term_login_macaroon g now user_id duration_in_ms)
     = [''gen = 1'', ''user_id = '' @ user_id, ''type = login'',
        ''time < '' @ str_int (login_expiry now duration_in_ms)]
   \<and> login_expiry now None = now + 120000
   \<and> login_expiry now (Some d) = now + d
   \<and> (0 < d \<longrightarrow> now < login_expiry now (Some d))
   \<and> now < login_expiry now None
   \<and> (last (caveats (short_term_login_macaroon g now user_id duration_in_ms)) = ''time < '' @ str_int e
        \<longrightarrow> e = login_expiry now duration_in_ms)"
proof -
  have c: "caveats (short_term_login_macaroon g now user_id duration_in_ms)
     = [''gen = 1'', ''user_id = '' @ user_id, ''type = login'',
        ''time < '' @ str_int (login_expiry now duration_in_ms)]"
    by (simp add: short_term_login_macaroon_def generate_base_macaroon_def
        add_first_party_caveat_def Let_def)
  have i: "last (caveats (short_term_login_macaroon g now user_id duration_in_ms)) = ''time < '' @ str_int e
        \<longrightarrow> e = login_expiry now duration_in_ms"
    unfolding c by (auto dest: str_int_inj)
  have t: "login_expiry now None = now + 120000" "login_expiry now (Some d) = now + d"
    by (simp_all add: login_expiry_def)
  from c i t show ?thesis
    by (simp add: generate_short_term_login_token_def)
qed


theorem generate_short_term_login_token_witness:
  "caveats (short_term_login_macaroon example_generator 1000 ''@alice:hs'' None)
     = [''gen = 1'', ''user_id = @alice:hs'', ''type = login'', ''time < 121000'']
   \<and> caveats (short_term_login_macaroon example_generator 1000 ''@alice:hs'' (Some 5))
     = [''gen = 1'', ''user_id = @alice:hs'', ''type = login'', ''time < 1005'']
   \<and> (0::int) < 5 \<and> (1000::int) < login_expiry 1000 (Some 5)"
proof -
  have e1: "str_int (login_expiry 1000 None) = ''121000''"
    and e2: "str_int (login_expiry 1000 (Some 5)) = ''1005''"
    by (simp_all add: login_expiry_def str_int_def str_nat.simps digit_def)
  have "caveats (short_term_login_macaroon example_generator 1000 ''@alice:hs'' None)
     = [''gen = 1'', ''user_id = '' @ ''@alice:hs'', ''type = login'',
        ''time < '' @ str_int (login_expiry 1000 None)]"
    and "caveats (short_term_login_macaroon example_generator 1000 ''@alice:hs'' (Some 5))
     = [''gen = 1'', ''user_id = '' @ ''@alice:hs'', ''type = login'',
        ''time < '' @ str_int (login_expiry 1000 (Some 5))]"
    and "(0::int) < 5 \<longrightarrow> 1000 < login_expiry 1000 (Some 5)"
    using generate_short_term_login_token_caveats [of example_generator 1000 "''@alice:hs''" None 5]
      generate_short_term_login_token_caveats [of example_generator 1000 "''@alice:hs''" "Some 5" 5]
    by blast+
  with e1 e2 show ?thesis by simp
qed

subsection \<open>The two failures of login validation\<close>

lemma check_provider_known:
  assumes "check_provider p u q lt pw sub k = Inr (None, k')"
  shows "(k' \<or> lt = VStr PASSWORD) = (k \<or> lt = VStr PASSWORD \<or> declares p lt)"
  using assms
  by (cases lt)
     (auto simp: check_provider_def declares_def Let_def
           split: option.splits sum.splits if_splits bool.splits)

lemma providers_loop_known:
  assumes "providers_loop ps u q lt pw sub k = Inr (None, k')"
  shows "(k' \<or> lt = VStr PASSWORD) = (k \<or> lt = VStr PASSWORD \<or> (\<exists>p\<in>set ps. declares p lt))"
  using assms
proof (induction ps arbitrary: k)
  case Nil
  then show ?case by simp
next
  case (Cons p ps)
  from Cons.prems obtain k1 where
    step: "check_provider p u q lt pw sub k = Inr (None, k1)" and
    rest: "providers_loop ps u q lt pw sub k1 = Inr (None, k')"
    by (auto split: sum.splits option.splits)
  from Cons.IH [OF rest] check_provider_known [OF step] show ?case
    by auto
qed

lemma check_local_password_no_match:
  assumes "get_users_by_id_case_insensitive hs user_id = Inr []"
  shows "check_local_password hs user_id password = Inr None"
  using assms by (simp add: check_local_password_def find_user_id_and_pwd_hash_def)

lemmas login_defs =
  validate_login_def qualify_def dict_get_def check_local_password_def
  find_user_id_and_pwd_hash_def validate_hash_def check_provider_def keys_Nil keys_Cons
  provider_result_tuple.simps Let_def

text \<open>C7, as the spec states it for every submission of a recognised type that nothing
  matches, fails on the checks that come before: a password submission without a
  password, a password submission when password login is disabled, and a submission of a
  type a provider declares that lacks a field the provider asks for, each fail with a 400
  error of their own, which is neither of the two errors of the claim.\<close>

theorem validate_login_other_failures:
  "validate_login example_hs ''carol'' [(''type'', VStr PASSWORD)]
     = Inl (SynapseError 400 (Msg ''Missing parameter: password''))
   \<and> validate_login (example_hs\<lparr>password_enabled := False\<rparr>) ''carol''
         [(''type'', VStr PASSWORD), (''password'', VStr ''x'')]
     = Inl (SynapseError 400 (Msg ''Password login has been disabled.''))
   \<and> validate_login (example_hs\<lparr>password_providers := [custom_provider]\<rparr>) ''carol''
         [(''type'', VStr ''m.login.custom'')]
     = Inl (SynapseError 400 (Fmt ''Missing parameters for login type %s: %s''
                                 [VStr ''m.login.custom'', VList [VStr ''token'']]))
   \<and> declares custom_provider (VStr ''m.login.custom'')"
  by (simp add: login_defs example_hs_def custom_provider_def declares_def PASSWORD_def)

text \<open>C7, amended: when the loop over the providers ends without a match and without an
  error, and a submission of the password type passed the checks of its first lines
  (password login enabled, a password that is true), then \<^verbatim>\<open>validate_login\<close> fails
  with the invalid-credentials error (403, FORBIDDEN) if the login type is the password
  type whose local lookup gave no match, or a type some provider with both
  \<^verbatim>\<open>get_supported_login_types\<close> and \<^verbatim>\<open>check_auth\<close> declares, and with the
  unknown-login-type error otherwise, that is, only when no step knew the type. In
  particular the password type with a user id the store does not know fails with the
  invalid-credentials error.\<close>

theorem validate_login_failure_modes:
  assumes loop: "providers_loop (password_providers hs) username (qualify hs username)
                   (dict_get sub ''type'') (dict_get sub ''password'') sub False = Inr (None, known)"
    and enabled: "dict_get sub ''type'' = VStr PASSWORD
                   \<longrightarrow> password_enabled hs \<and> truthy (dict_get sub ''password'')"
  shows "((dict_get sub ''type'' = VStr PASSWORD
            \<longrightarrow> check_local_password hs (qualify hs username) (dict_get sub ''password'')
                  \<in> {Inr None, Inr (Some [])})
          \<longrightarrow> validate_login hs username sub =
                Inl (if dict_get sub ''type'' = VStr PASSWORD
                       \<or> (\<exists>p\<in>set (password_providers hs). declares p (dict_get sub ''type''))
                     then LoginError 403 (Msg ''Invalid password'') FORBIDDEN
                     else SynapseError 400 (Fmt ''Unknown login type %s'' [dict_get sub ''type''])))
       \<and> (dict_get sub ''type'' = VStr PASSWORD
            \<and> get_users_by_id_case_insensitive hs (qualify hs username) = Inr []
          \<longrightarrow> validate_login hs username sub = Inl (LoginError 403 (Msg ''Invalid password'') FORBIDDEN))"
proof (cases "dict_get sub ''type'' = VStr PASSWORD")
  case True
  with loop enabled show ?thesis
    by (auto simp: validate_login_def Let_def check_local_password_no_match)
next
  case False
  with providers_loop_known [OF loop] loop show ?thesis
    by (auto simp: validate_login_def Let_def)
qed

theorem validate_login_failure_modes_witness:
  "validate_login example_hs ''carol'' [(''type'', VStr PASSWORD), (''password'', VStr ''x'')]
     = Inl (LoginError 403 (Msg ''Invalid password'') FORBIDDEN)
   \<and> validate_login (example_hs\<lparr>password_providers := [custom_provider]\<rparr>) ''carol''
       [(''type'', VStr ''m.login.custom''), (''token'', VStr ''t'')]
     = Inl (LoginError 403 (Msg ''Invalid password'') FORBIDDEN)
   \<and> validate_login (example_hs\<lparr>password_providers := [custom_provider]\<rparr>) ''carol''
       [(''type'', VStr ''m.login.other''), (''token'', VStr ''t'')]
     = Inl (SynapseError 400 (Fmt ''Unknown login type %s'' [VStr ''m.login.other'']))"
proof -
  let ?hs = "example_hs\<lparr>password_providers := [custom_provider]\<rparr>"
  let ?pw = "[(''type'', VStr PASSWORD), (''password'', VStr ''x'')]"
  let ?custom = "[(''type'', VStr ''m.login.custom''), (''token'', VStr ''t'')]"
  let ?other = "[(''type'', VStr ''m.login.other''), (''token'', VStr ''t'')]"
  have a: "providers_loop (password_providers example_hs) ''carol'' (qualify example_hs ''carol'')
             (dict_get ?pw ''type'') (dict_get ?pw ''password'') ?pw False = Inr (None, False)"
    by (simp add: example_hs_def)
  have a': "dict_get ?pw ''type'' = VStr PASSWORD
             \<longrightarrow> password_enabled example_hs \<and> truthy (dict_get ?pw ''password'')"
    by (simp add: example_hs_def dict_get_def)
  have a'': "dict_get ?pw ''type'' = VStr PASSWORD
             \<and> get_users_by_id_case_insensitive example_hs (qualify example_hs ''carol'') = Inr []"
    by (simp add: example_hs_def dict_get_def qualify_def example_users_def)
  have b: "providers_loop (password_providers ?hs) ''carol'' (qualify ?hs ''carol'')
             (dict_get ?custom ''type'') (dict_get ?custom ''password'') ?custom False = Inr (None, True)"
    by (simp add: login_defs custom_provider_def PASSWORD_def)
  have c: "providers_loop (password_providers ?hs) ''carol'' (qualify ?hs ''carol'')
             (dict_get ?other ''type'') (dict_get ?other ''password'') ?other False = Inr (None, False)"
    by (simp add: login_defs custom_provider_def PASSWORD_def)
  have t: "dict_get ?custom ''type'' \<noteq> VStr PASSWORD" "dict_get ?other ''type'' \<noteq> VStr PASSWORD"
    by (simp_all add: dict_get_def PASSWORD_def)
  have d: "\<exists>p\<in>set (password_providers ?hs). declares p (dict_get ?custom ''type'')"
    by (simp add: declares_def custom_provider_def dict_get_def keys_Nil keys_Cons)
  have e: "\<not> (\<exists>p\<in>set (password_providers ?hs). declares p (dict_get ?other ''type''))"
    by (simp add: declares_def custom_provider_def dict_get_def keys_Nil keys_Cons)
  from validate_login_failure_modes [OF a a'] a''
  have "validate_login example_hs ''carol'' ?pw = Inl (LoginError 403 (Msg ''Invalid password'') FORBIDDEN)"
    by blast
  moreover from validate_login_failure_modes [OF b] t d
  have "validate_login ?hs ''carol'' ?custom = Inl (LoginError 403 (Msg ''Invalid password'') FORBIDDEN)"
    by simp
  moreover from validate_login_failure_modes [OF c] t e
  have "validate_login ?hs ''carol'' ?other
          = Inl (SynapseError 400 (Fmt ''Unknown login type %s'' [VStr ''m.login.other'']))"
    by (simp add: dict_get_def)
  ultimately show ?thesis by simp
qed

subsection \<open>Password login disabled\<close>

text \<open>C10: with password login disabled, \<^verbatim>\<open>validate_login\<close> of a submission of the
  password type raises the 400 error "Password login has been disabled.", for every user
  name and password and whatever the password providers and the store would do: they are
  not consulted.\<close>

theorem validate_login_password_disabled:
  assumes "\<not> password_enabled hs" and "dict_get login_submission ''type'' = VStr PASSWORD"
  shows "validate_login (hs\<lparr>password_providers := providers, get_users_by_id_case_insensitive := lookup\<rparr>)
           username login_submission
           = Inl (SynapseError 400 (Msg ''Password login has been disabled.''))"
  using assms by (simp add: validate_login_def Let_def)

theorem validate_login_password_disabled_witness:
  "\<not> password_enabled (example_hs\<lparr>password_enabled := False\<rparr>)
   \<and> dict_get [(''type'', VStr PASSWORD), (''password'', VStr ''secret'')] ''type'' = VStr PASSWORD
   \<and> validate_login
        (example_hs\<lparr>password_enabled := False, password_providers := [raising_provider],
                   get_users_by_id_case_insensitive := (\<lambda>u. Inl (External ''store''))\<rparr>)
        ''alice'' [(''type'', VStr PASSWORD), (''password'', VStr ''secret'')]
      = Inl (SynapseError 400 (Msg ''Password login has been disabled.''))"
proof -
  have a: "\<not> password_enabled (example_hs\<lparr>password_enabled := False\<rparr>)"
    by simp
  have b: "dict_get [(''type'', VStr PASSWORD), (''password'', VStr ''secret'')] ''type'' = VStr PASSWORD"
    by (simp add: dict_get_def)
  from validate_login_password_disabled [OF a b, where providers = "[raising_provider]"
      and lookup = "\<lambda>u. Inl (External ''store'')" and username = "''alice''"] a b
  show ?thesis by simp
qed

subsection \<open>Password hashes\<close>

text \<open>
  What \<^verbatim>\<open>validate_hash\<close> does by itself: an absent or empty stored hash is refused
  without a call of bcrypt, and any other stored hash is accepted exactly when bcrypt,
  salted with it, maps the peppered password to it, and raises when bcrypt does. Whether
  the hash of a password verifies that password, and no other, is then a matter of bcrypt
  alone.
\<close>

lemma validate_hash_absent:
  "validate_hash hs password None = Inr False" "validate_hash hs password (Some []) = Inr False"
  by (simp_all add: validate_hash_def)

lemma validate_hash_iff:
  assumes "utf8_encode hs password = Inr pw" and "utf8_encode hs h = Inr salt" and "h \<noteq> []"
  shows "validate_hash hs password (Some h)
           = (case hashpw hs (pw @ password_pepper hs) salt of
                Inl e \<Rightarrow> Inl e
              | Inr hashed \<Rightarrow> Inr (hashed = h))"
  using assms by (simp add: validate_hash_def)

lemma validate_hash_of_hash:
  assumes "utf8_encode hs p = Inr pw" and "hash hs salt p' = Inr h" and "utf8_encode hs h = Inr h"
  shows "validate_hash hs p (Some h)
           = (if h = [] then Inr False
              else case hashpw hs (pw @ password_pepper hs) h of
                     Inl e \<Rightarrow> Inl e
                   | Inr hashed \<Rightarrow> Inr (hashed = h))"
  using assms by (simp add: validate_hash_def)

subsection \<open>Resolving an identity\<close>

text \<open>C5: the three outcomes of \<^verbatim>\<open>_find_user_id_and_pwd_hash\<close> on the dictionary the
  case-insensitive lookup returned: a single match is returned whatever its case, among
  several matches only the exact one is, and no match or several inexact ones give none.\<close>

theorem find_user_id_and_pwd_hash_cases:
  assumes "get_users_by_id_case_insensitive hs user_id = Inr user_infos"
  shows "(\<forall>u h. user_infos = [(u, h)] \<longrightarrow>
            find_user_id_and_pwd_hash hs user_id = Inr (Some (u, h)))
       \<and> (\<forall>h. 1 < length user_infos \<and> map_of user_infos user_id = Some h \<longrightarrow>
            find_user_id_and_pwd_hash hs user_id = Inr (Some (user_id, h)))
       \<and> (user_infos = [] \<or> (1 < length user_infos \<and> user_id \<notin> set (keys user_infos)) \<longrightarrow>
            find_user_id_and_pwd_hash hs user_id = Inr None)"
  using assms
  by (auto simp: find_user_id_and_pwd_hash_def keys_def map_of_eq_None_iff
      dest: map_of_SomeD weak_map_of_SomeI)

theorem find_user_id_and_pwd_hash_witness:
  "find_user_id_and_pwd_hash example_hs ''@alice:hs'' = Inr (Some (''@Alice:hs'', Some ''$h1''))
   \<and> find_user_id_and_pwd_hash example_hs ''@bob:hs'' = Inr (Some (''@bob:hs'', Some ''$h3''))
   \<and> find_user_id_and_pwd_hash example_hs ''@BOB:hs'' = Inr None
   \<and> find_user_id_and_pwd_hash example_hs ''@carol:hs'' = Inr None"
proof -
  have a: "get_users_by_id_case_insensitive example_hs ''@alice:hs'' = Inr [(''@Alice:hs'', Some ''$h1'')]"
    and b: "get_users_by_id_case_insensitive example_hs ''@bob:hs''
              = Inr [(''@Bob:hs'', Some ''$h2''), (''@bob:hs'', Some ''$h3'')]"
    and c: "get_users_by_id_case_insensitive example_hs ''@BOB:hs''
              = Inr [(''@Bob:hs'', Some ''$h2''), (''@bob:hs'', Some ''$h3'')]"
    and d: "get_users_by_id_case_insensitive example_hs ''@carol:hs'' = Inr []"
    by (simp_all add: example_hs_def example_users_def)
  show ?thesis
    using find_user_id_and_pwd_hash_cases [OF a] find_user_id_and_pwd_hash_cases [OF b]
      find_user_id_and_pwd_hash_cases [OF c] find_user_id_and_pwd_hash_cases [OF d]
    by (simp add: keys_def)
qed

end
